theory Spec2Isabelle
  imports Main
begin

section \<open>Python values and built-ins used by rest/app.py\<close>

text \<open>
  The handlers of \<^verbatim>\<open>rest/app.py\<close> keep query parameters in local variables that hold
  \<^verbatim>\<open>None\<close>, the raw string, or (after \<^verbatim>\<open>int(...)\<close>) an integer. The same variable is
  reassigned in place, so one type of Python values covers all three.
\<close>

datatype pyval = PNone | PStr string | PInt int

datatype exn = ValueError | TypeError | UnboundLocalError

text \<open>\<^verbatim>\<open>str(n)\<close> for an integer: decimal digits, a leading minus sign when negative.\<close>

definition digit_char :: "nat \<Rightarrow> char" where
  "digit_char d = ''0123456789'' ! (d mod 10)"

function str_nat :: "nat \<Rightarrow> string" where
  "str_nat n = (if n < 10 then [digit_char n] else str_nat (n div 10) @ [digit_char n])"
  by pat_completeness auto
termination
  by (relation "measure (\<lambda>n. n)") auto

declare str_nat.simps [simp del]

definition str_int :: "int \<Rightarrow> string" where
  "str_int i = (if i < 0 then CHR ''-'' # str_nat (nat (- i)) else str_nat (nat i))"

fun py_str :: "pyval \<Rightarrow> string" where
  "py_str PNone = ''None''"
| "py_str (PStr s) = s"
| "py_str (PInt i) = str_int i"

text \<open>
  \<^verbatim>\<open>int(x)\<close>: \<^verbatim>\<open>None\<close> raises TypeError; a string is stripped of surrounding white space
  and must then be an optional sign followed by one or more decimal digits, otherwise
  ValueError is raised (the decimal literals that Python 2 and Python 3 both accept).
\<close>

definition is_space :: "char \<Rightarrow> bool" where
  "is_space c = (c \<in> set [CHR '' '', CHR 0x09, CHR 0x0A, CHR 0x0B, CHR 0x0C, CHR 0x0D])"

definition strip :: "string \<Rightarrow> string" where
  "strip s = rev (dropWhile is_space (rev (dropWhile is_space s)))"

definition digit_of :: "char \<Rightarrow> nat option" where
  "digit_of c = map_of
     [(CHR ''0'', 0), (CHR ''1'', 1), (CHR ''2'', 2), (CHR ''3'', 3), (CHR ''4'', 4),
      (CHR ''5'', 5), (CHR ''6'', 6), (CHR ''7'', 7), (CHR ''8'', 8), (CHR ''9'', 9)] c"

fun digits_value :: "nat \<Rightarrow> string \<Rightarrow> nat option" where
  "digits_value acc [] = Some acc"
| "digits_value acc (c # cs) =
     (case digit_of c of None \<Rightarrow> None | Some d \<Rightarrow> digits_value (10 * acc + d) cs)"

definition parse_int :: "string \<Rightarrow> int option" where
  "parse_int s =
     (case strip s of
        [] \<Rightarrow> None
      | c # cs \<Rightarrow>
          if c = CHR ''-'' then
            (if cs = [] then None else map_option (\<lambda>n. - int n) (digits_value 0 cs))
          else if c = CHR ''+'' then
            (if cs = [] then None else map_option int (digits_value 0 cs))
          else map_option int (digits_value 0 (c # cs)))"

fun py_int :: "pyval \<Rightarrow> exn + int" where
  "py_int PNone = Inl TypeError"
| "py_int (PStr s) = (case parse_int s of None \<Rightarrow> Inl ValueError | Some i \<Rightarrow> Inr i)"
| "py_int (PInt i) = Inr i"

section \<open>The request\<close>

text \<open>
  What the handlers read from Flask's \<^verbatim>\<open>request\<close>: the query arguments (a multi-dict whose
  \<^verbatim>\<open>get\<close> returns the first value of a key, or \<^verbatim>\<open>None\<close>), the URLs used in links, and
  the endpoint name.
\<close>

record request =
  args :: "(string \<times> string) list"
  base_url :: string
  url_root :: string
  url :: string
  endpoint :: string

definition args_get :: "request \<Rightarrow> string \<Rightarrow> pyval" where
  "args_get request k = (case map_of (args request) k of None \<Rightarrow> PNone | Some s \<Rightarrow> PStr s)"

section \<open>help\_usage (lines 51-121)\<close>

text \<open>
  Dictionaries are association lists in the order the source writes their keys; a key is
  looked up with \<open>map_of\<close>. The message returned by \<^verbatim>\<open>help_usage\<close> is a record with
  optional \<^verbatim>\<open>provided_parameters\<close> and \<^verbatim>\<open>error\<close> entries.
\<close>

definition parameters :: "(string \<times> string list) list" where
  "parameters =
    [(''file_id'', [''File ID'', ''str'', ''REQUIRED'']),
     (''chrom'', [''Chromosome'', ''str'', ''REQUIRED'']),
     (''start'', [''Start'', ''int'', ''REQUIRED'']),
     (''end'', [''End'', ''int'', ''REQUIRED'']),
     (''res'', [''Resolution'', ''int'', ''REQUIRED'']),
     (''limit_chr'',
        [''Limit interactions to interacting with a specific chromosome'',
         ''str'', ''OPTIONAL'']),
     (''limit_start'',
        [''Limits interactions based on a region within the chromosome defined by the limit_chr parameter. REQUIRES that limit_chr and limit_end are defined'',
         ''int'', ''OPTIONAL'']),
     (''limit_end'',
        [''Limits interactions based on a region within the chromosome defined by the limit_chr parameter. REQUIRES that limit_chr and limit_start are defined'',
         ''int'', ''OPTIONAL'']),
     (''pos_x'', [''Position i'', ''int'', ''REQUIRED'']),
     (''pos_y'', [''Position j'', ''int'', ''REQUIRED'']),
     (''type'', [''add_meta|remove_meta'', ''str'', ''REQUIRED''])]"

record usage_message =
  usage_self :: string
  usage_parent :: string
  usage_parameters :: "(string \<times> string list) list"
  status_code :: int
  provided_parameters :: "(string \<times> pyval) list option"
  error :: "string option"

definition used_param :: "string list \<Rightarrow> (string \<times> string list) list" where
  "used_param parameters_required =
     concat (map (\<lambda>k. case map_of parameters k of None \<Rightarrow> [] | Some v \<Rightarrow> [(k, v)])
                 parameters_required)"

definition help_usage ::
  "request \<Rightarrow> string option \<Rightarrow> int \<Rightarrow> string list \<Rightarrow> (string \<times> pyval) list \<Rightarrow> usage_message"
where
  "help_usage request error_message code parameters_required parameters_provided =
     \<lparr> usage_self = base_url request,
       usage_parent = url_root request @ ''mug/api/adjacency'',
       usage_parameters = used_param parameters_required,
       status_code = code,
       provided_parameters =
         (if parameters_provided \<noteq> [] then Some parameters_provided else None),
       error = error_message \<rparr>"

section \<open>The collaborators\<close>

text \<open>
  \<^verbatim>\<open>@authorized\<close> hands the handler either \<^verbatim>\<open>None\<close> or a dictionary with the entry
  \<^verbatim>\<open>"user_id"\<close>. The adjacency reader is opaque: opening it gives a handle whose
  methods are taken as given functions. The handlers' calls on the reader are recorded, in
  order, as a list of \<open>hdf5_call\<close>s returned beside the handler's outcome.
\<close>

record auth_user =
  user_name :: string

record interaction =
  chrA :: pyval
  startA :: pyval
  chrB :: pyval
  startB :: pyval
  val :: pyval

record details =
  chromosomes :: "(pyval \<times> pyval) list"
  resolutions :: "int list"

record range_data =
  results :: "interaction list"
  log :: "string list"

record hdf5_adjacency =
  get_details :: details
  get_range ::
    "pyval \<Rightarrow> pyval \<Rightarrow> pyval \<Rightarrow> pyval \<Rightarrow> pyval \<Rightarrow> pyval \<Rightarrow> string \<Rightarrow> pyval \<Rightarrow> range_data"
  get_value :: "int \<Rightarrow> int \<Rightarrow> int"
  get_chromosome_from_array_index :: "int \<Rightarrow> pyval"

type_synonym reader = "string \<Rightarrow> pyval \<Rightarrow> pyval \<Rightarrow> hdf5_adjacency"

datatype hdf5_call = Open | Get_details | Get_range | Get_value | Get_chromosome | Close

section \<open>Response bodies\<close>

record details_body =
  det_self :: string
  det_parent :: string
  det_chromosomes :: "(pyval \<times> pyval) list"
  det_resolutions :: "int list"

record interactions_body =
  env_self :: string
  env_parent :: string
  env_resolution :: pyval
  env_chr :: pyval
  env_start :: pyval
  env_end :: pyval
  env_limit_chr :: pyval
  env_limit_start :: pyval
  env_limit_end :: pyval
  env_interaction_count :: nat
  env_values :: "interaction list"
  env_log :: "string list"

record value_body =
  val_self :: string
  val_chrA :: pyval
  val_chrB :: pyval
  val_resolution :: int
  val_pos_x :: int
  val_pos_y :: int
  val_value :: int

datatype response =
    Usage usage_message
  | Usage_test
  | Details details_body
  | Interactions interactions_body
  | Value value_body

datatype outcome = Reply response | Raised exn

section \<open>output\_tsv (lines 36-49)\<close>

text \<open>
  The loop appends one line per entry of \<^verbatim>\<open>data["values"]\<close> to \<^verbatim>\<open>outstr\<close>. A body
  without the key \<^verbatim>\<open>"values"\<close> raises KeyError; on any endpoint other than
  \<^verbatim>\<open>"values"\<close> the function falls off its end and returns \<^verbatim>\<open>None\<close>.
\<close>

datatype tsv_error = KeyError

record http_response =
  body :: string
  status :: int
  headers :: "(string \<times> string) list"

fun tsv_loop :: "string \<Rightarrow> interaction list \<Rightarrow> string" where
  "tsv_loop outstr [] = outstr"
| "tsv_loop outstr (v # vs) =
     tsv_loop
       (((outstr @ py_str (chrA v) @ [CHR 0x09] @ py_str (startA v) @ [CHR 0x09])
          @ py_str (chrB v) @ [CHR 0x09] @ py_str (startB v) @ [CHR 0x09])
          @ py_str (val v) @ [CHR 0x0A])
       vs"

definition output_tsv ::
  "request \<Rightarrow> response \<Rightarrow> int \<Rightarrow> (string \<times> string) list option
     \<Rightarrow> tsv_error + http_response option"
where
  "output_tsv request data code hdrs =
     (if endpoint request = ''values'' then
        (case data of
           Interactions env \<Rightarrow>
             Inr (Some \<lparr> body = tsv_loop [] (env_values env), status = code,
                         headers = (case hdrs of None \<Rightarrow> [] | Some h \<Rightarrow> h) \<rparr>)
         | _ \<Rightarrow> Inl KeyError)
      else Inr None)"

section \<open>Presence counting\<close>

text \<open>
  \<^verbatim>\<open>sum([x is None for x in params])\<close>: \<open>params\<close> is kept as the list of the flags
  \<^verbatim>\<open>x is None\<close>, one per entry, and \<open>count_true\<close> is the sum.
\<close>

definition count_true :: "bool list \<Rightarrow> nat" where
  "count_true bs = length (filter (\<lambda>b. b) bs)"

section \<open>GetDetails.get (lines 161-229)\<close>

text \<open>
  \<^verbatim>\<open>params_required\<close> is assigned inside the branch \<^verbatim>\<open>if user_id is not None\<close> only, so
  the final \<^verbatim>\<open>return help_usage('Forbidden', 403, params_required, {})\<close> reads an unbound
  local variable when \<^verbatim>\<open>user_id\<close> is \<^verbatim>\<open>None\<close>.
\<close>

definition GetDetails_get ::
  "reader \<Rightarrow> request \<Rightarrow> auth_user option \<Rightarrow> outcome \<times> hdf5_call list"
where
  "GetDetails_get adjacency request user_id =
     (case user_id of
        None \<Rightarrow> (Raised UnboundLocalError, [])
      | Some u \<Rightarrow>
          (let file_id = args_get request ''file_id'';
               params_required = [''file_id''];
               params = [user_id = None, file_id = PNone]
           in if count_true params = length params then (Reply Usage_test, [])
              else if count_true (map Not params) \<noteq> length params then
                (Reply (Usage (help_usage request (Some ''MissingParameters'') 400
                    params_required [(''file_id'', file_id)])), [])
              else
                (let hdf5_handle = adjacency (user_name u) file_id PNone;
                     h5_data = get_details hdf5_handle
                 in (Reply (Details
                       \<lparr> det_self = base_url request,
                         det_parent = url_root request @ ''mug/api/adjacency'',
                         det_chromosomes = chromosomes h5_data,
                         det_resolutions = resolutions h5_data \<rparr>),
                     [Open, Get_details, Close]))))"

section \<open>GetInteractions.get (lines 238-448)\<close>

definition provided_range ::
  "pyval \<Rightarrow> pyval \<Rightarrow> pyval \<Rightarrow> pyval \<Rightarrow> pyval \<Rightarrow> pyval \<Rightarrow> pyval \<Rightarrow> pyval
     \<Rightarrow> (string \<times> pyval) list"
where
  "provided_range file_id chr_id start end_v resolution limit_chr limit_start limit_end =
     [(''file_id'', file_id), (''chr'', chr_id), (''start'', start), (''end'', end_v),
      (''res'', resolution), (''limit_chr'', limit_chr),
      (''limit_start'', limit_start), (''limit_end'', limit_end)]"

text \<open>Lines 418-441: the range lookup, the close, and the envelope.\<close>

definition GetInteractions_result ::
  "hdf5_adjacency \<Rightarrow> request \<Rightarrow> pyval \<Rightarrow> pyval \<Rightarrow> pyval \<Rightarrow> pyval \<Rightarrow> pyval \<Rightarrow> pyval
     \<Rightarrow> pyval \<Rightarrow> pyval \<Rightarrow> outcome \<times> hdf5_call list"
where
  "GetInteractions_result hdf5_handle request chr_id start end_v resolution
       limit_chr limit_start limit_end no_links =
     (let value_url = url_root request @ ''mug/api/adjacency/getValue'';
          h5_data = get_range hdf5_handle chr_id start end_v limit_chr limit_start limit_end
                      value_url no_links
      in (Reply (Interactions
            \<lparr> env_self = url request,
              env_parent = url_root request @ ''mug/api/adjacency'',
              env_resolution = resolution,
              env_chr = chr_id,
              env_start = start,
              env_end = end_v,
              env_limit_chr = limit_chr,
              env_limit_start = limit_start,
              env_limit_end = limit_end,
              env_interaction_count = length (results h5_data),
              env_values = results h5_data,
              env_log = log h5_data \<rparr>),
          [Open, Get_details, Get_range, Close]))"

text \<open>
  Lines 403-416: the handler of the second \<^verbatim>\<open>try\<close>. Only ValueError is caught; the
  variables hold whatever the assignments before the failure left in them.
\<close>

definition GetInteractions_limit_except ::
  "request \<Rightarrow> string list \<Rightarrow> exn \<Rightarrow> pyval \<Rightarrow> pyval \<Rightarrow> pyval \<Rightarrow> pyval \<Rightarrow> pyval \<Rightarrow> pyval
     \<Rightarrow> pyval \<Rightarrow> pyval \<Rightarrow> outcome \<times> hdf5_call list"
where
  "GetInteractions_limit_except request params_required e file_id chr_id start end_v
       resolution limit_chr limit_start limit_end =
     (if e = ValueError then
        (Reply (Usage (help_usage request (Some ''IncorrectParameterType'') 400
            params_required
            (provided_range file_id chr_id start end_v resolution
               limit_chr limit_start limit_end))),
         [Open, Get_details])
      else (Raised e, [Open, Get_details]))"

text \<open>
  Lines 376-441: the handle is opened at the requested resolution, the details are read
  from it, and the resolution and the limiting parameters are checked afterwards. The
  three \<^verbatim>\<open>return help_usage(...)\<close> statements leave without calling \<^verbatim>\<open>close\<close>.
\<close>

definition GetInteractions_query ::
  "reader \<Rightarrow> request \<Rightarrow> auth_user \<Rightarrow> string list \<Rightarrow> pyval \<Rightarrow> pyval \<Rightarrow> int \<Rightarrow> int \<Rightarrow> int
     \<Rightarrow> pyval \<Rightarrow> pyval \<Rightarrow> pyval \<Rightarrow> pyval \<Rightarrow> outcome \<times> hdf5_call list"
where
  "GetInteractions_query adjacency request u params_required file_id chr_id start end_v
       resolution limit_chr limit_start limit_end no_links =
     (let hdf5_handle = adjacency (user_name u) file_id (PInt resolution);
          details = get_details hdf5_handle
      in if resolution \<notin> set (resolutions details) then
           (Reply (Usage (help_usage request (Some ''Resolution Not Available'') 400
               params_required
               (provided_range file_id chr_id (PInt start) (PInt end_v) (PInt resolution)
                  limit_chr limit_start limit_end))),
            [Open, Get_details])
         else if limit_start \<noteq> PNone \<or> limit_end \<noteq> PNone then
           (if limit_chr = PNone then
              (Reply (Usage (help_usage request (Some ''MissingParameters'') 400
                  params_required
                  (provided_range file_id chr_id (PInt start) (PInt end_v) (PInt resolution)
                     limit_chr limit_start limit_end))),
               [Open, Get_details])
            else
              (case py_int limit_start of
                 Inl e \<Rightarrow>
                   GetInteractions_limit_except request params_required e file_id chr_id
                     (PInt start) (PInt end_v) (PInt resolution)
                     limit_chr limit_start limit_end
               | Inr ls \<Rightarrow>
                   (case py_int limit_end of
                      Inl e \<Rightarrow>
                        GetInteractions_limit_except request params_required e file_id chr_id
                          (PInt start) (PInt end_v) (PInt resolution)
                          limit_chr (PInt ls) limit_end
                    | Inr le \<Rightarrow>
                        GetInteractions_result hdf5_handle request chr_id
                          (PInt start) (PInt end_v) (PInt resolution)
                          limit_chr (PInt ls) (PInt le) no_links)))
         else
           GetInteractions_result hdf5_handle request chr_id
             (PInt start) (PInt end_v) (PInt resolution)
             limit_chr limit_start limit_end no_links)"

text \<open>
  Lines 361-374: the handler of the first \<^verbatim>\<open>try\<close>; its dictionary has no
  \<^verbatim>\<open>limit_start\<close> and \<^verbatim>\<open>limit_end\<close> entries.
\<close>

definition GetInteractions_except ::
  "request \<Rightarrow> string list \<Rightarrow> exn \<Rightarrow> pyval \<Rightarrow> pyval \<Rightarrow> pyval \<Rightarrow> pyval \<Rightarrow> pyval \<Rightarrow> pyval
     \<Rightarrow> outcome \<times> hdf5_call list"
where
  "GetInteractions_except request params_required e file_id chr_id start end_v
       resolution limit_chr =
     (if e = ValueError then
        (Reply (Usage (help_usage request (Some ''IncorrectParameterType'') 400
            params_required
            [(''file_id'', file_id), (''chr'', chr_id), (''start'', start),
             (''end'', end_v), (''res'', resolution), (''limit_chr'', limit_chr)])),
         [])
      else (Raised e, []))"

definition GetInteractions_get ::
  "reader \<Rightarrow> request \<Rightarrow> auth_user option \<Rightarrow> outcome \<times> hdf5_call list"
where
  "GetInteractions_get adjacency request user_id =
     (case user_id of
        None \<Rightarrow>
          (Reply (Usage (help_usage request (Some ''Forbidden'') 403
              [''file_id'', ''chr_id'', ''start'', ''end'', ''res'',
               ''limit_chr'', ''limit_start'', ''limit_end''] [])), [])
      | Some u \<Rightarrow>
          (let file_id = args_get request ''file_id'';
               chr_id = args_get request ''chr'';
               start = args_get request ''start'';
               end_v = args_get request ''end'';
               resolution = args_get request ''res'';
               limit_chr = args_get request ''limit_chr'';
               limit_start = args_get request ''limit_start'';
               limit_end = args_get request ''limit_end'';
               no_links = args_get request ''no_links'';
               params_required =
                 [''user_id'', ''file_id'', ''chr_id'', ''start'', ''end'', ''res'',
                  ''limit_chr'', ''limit_start'', ''limit_end''];
               params = [user_id = None, file_id = PNone, chr_id = PNone, start = PNone,
                         end_v = PNone, resolution = PNone]
           in if count_true params = length params then
                (Reply (Usage (help_usage request None 200 params_required [])), [])
              else if count_true (map Not params) \<noteq> length params then
                (Reply (Usage (help_usage request (Some ''MissingParameters'') 400
                    params_required
                    (provided_range file_id chr_id start end_v resolution
                       limit_chr limit_start limit_end))), [])
              else
                (case py_int start of
                   Inl e \<Rightarrow>
                     GetInteractions_except request params_required e file_id chr_id
                       start end_v resolution limit_chr
                 | Inr start_i \<Rightarrow>
                     (case py_int end_v of
                        Inl e \<Rightarrow>
                          GetInteractions_except request params_required e file_id chr_id
                            (PInt start_i) end_v resolution limit_chr
                      | Inr end_i \<Rightarrow>
                          (case py_int resolution of
                             Inl e \<Rightarrow>
                               GetInteractions_except request params_required e file_id
                                 chr_id (PInt start_i) (PInt end_i) resolution limit_chr
                           | Inr res_i \<Rightarrow>
                               GetInteractions_query adjacency request u params_required
                                 file_id chr_id start_i end_i res_i
                                 limit_chr limit_start limit_end no_links)))))"

section \<open>GetValue.get (lines 456-562)\<close>

definition GetValue_except ::
  "request \<Rightarrow> string list \<Rightarrow> exn \<Rightarrow> pyval \<Rightarrow> pyval \<Rightarrow> pyval \<Rightarrow> pyval
     \<Rightarrow> outcome \<times> hdf5_call list"
where
  "GetValue_except request params_required e file_id resolution pos_x pos_y =
     (if e = ValueError then
        (Reply (Usage (help_usage request (Some ''IncorrectParameterType'') 400
            params_required
            [(''file_id'', file_id), (''resolution'', resolution),
             (''pos_x'', pos_x), (''pos_y'', pos_y)])),
         [])
      else (Raised e, []))"

definition GetValue_query ::
  "reader \<Rightarrow> request \<Rightarrow> auth_user \<Rightarrow> pyval \<Rightarrow> int \<Rightarrow> int \<Rightarrow> int
     \<Rightarrow> outcome \<times> hdf5_call list"
where
  "GetValue_query adjacency request u file_id resolution pos_x pos_y =
     (let h5_handle = adjacency (user_name u) file_id (PInt resolution);
          v = get_value h5_handle pos_x pos_y;
          chr_a_id = get_chromosome_from_array_index h5_handle pos_x;
          chr_b_id = get_chromosome_from_array_index h5_handle pos_y
      in (Reply (Value
            \<lparr> val_self = url_root request @ ''mug/api/adjacency/getValue?file_id=''
                  @ py_str file_id @ ''&res='' @ str_int resolution
                  @ ''&pos_x='' @ str_int pos_x @ ''&pos_y='' @ str_int pos_y,
              val_chrA = chr_a_id,
              val_chrB = chr_b_id,
              val_resolution = resolution,
              val_pos_x = pos_x,
              val_pos_y = pos_y,
              val_value = v \<rparr>),
          [Open, Get_value, Get_chromosome, Get_chromosome, Close]))"

definition GetValue_get ::
  "reader \<Rightarrow> request \<Rightarrow> auth_user option \<Rightarrow> outcome \<times> hdf5_call list"
where
  "GetValue_get adjacency request user_id =
     (case user_id of
        None \<Rightarrow>
          (Reply (Usage (help_usage request (Some ''Forbidden'') 403
              [''file_id'', ''res'', ''pos_x'', ''pos_y''] [])), [])
      | Some u \<Rightarrow>
          (let file_id = args_get request ''file_id'';
               resolution = args_get request ''res'';
               pos_x = args_get request ''pos_x'';
               pos_y = args_get request ''pos_y'';
               params_required = [''user_id'', ''file_id'', ''res'', ''pos_x'', ''pos_y''];
               params = [user_id = None, file_id = PNone, resolution = PNone,
                         pos_x = PNone, pos_y = PNone]
           in if count_true params = length params then
                (Reply (Usage (help_usage request None 200 params_required [])), [])
              else if count_true (map Not params) \<noteq> length params then
                (Reply (Usage (help_usage request (Some ''MissingParameters'') 400
                    params_required
                    [(''file_id'', file_id), (''resolution'', resolution),
                     (''pos_x'', pos_x), (''pos_y'', pos_y)])), [])
              else
                (case py_int pos_x of
                   Inl e \<Rightarrow>
                     GetValue_except request params_required e file_id resolution pos_x pos_y
                 | Inr x_i \<Rightarrow>
                     (case py_int pos_y of
                        Inl e \<Rightarrow>
                          GetValue_except request params_required e file_id resolution
                            (PInt x_i) pos_y
                      | Inr y_i \<Rightarrow>
                          (case py_int resolution of
                             Inl e \<Rightarrow>
                               GetValue_except request params_required e file_id resolution
                                 (PInt x_i) (PInt y_i)
                           | Inr res_i \<Rightarrow>
                               GetValue_query adjacency request u file_id res_i x_i y_i)))))"

section \<open>Example collaborators for concrete evaluations\<close>

text \<open>
  A dataset with the resolutions 1000 and 10000, two interaction records, and bins 0-15 on
  chr1 and the later ones on chr2; a request is given by its query arguments.
\<close>

definition example_records :: "interaction list" where
  "example_records =
     [\<lparr> chrA = PInt 1, startA = PInt 100, chrB = PInt 2, startB = PInt 200, val = PInt 5 \<rparr>,
      \<lparr> chrA = PInt 1, startA = PInt 150, chrB = PInt 3, startB = PInt 300, val = PInt 7 \<rparr>]"

definition example_reader :: reader where
  "example_reader user file res =
     \<lparr> get_details =
         \<lparr> chromosomes = [(PStr ''chr1'', PInt 16000), (PStr ''chr2'', PInt 15000)],
           resolutions = [1000, 10000] \<rparr>,
       get_range = (\<lambda>c s e lc ls le u nl. \<lparr> results = example_records, log = [] \<rparr>),
       get_value = (\<lambda>x y. 42),
       get_chromosome_from_array_index =
         (\<lambda>i. if i \<le> 15 then PStr ''chr1'' else PStr ''chr2'') \<rparr>"

definition example_request :: "(string \<times> string) list \<Rightarrow> request" where
  "example_request a =
     \<lparr> args = a, base_url = ''http://localhost:5001/mug/api/adjacency/getInteractions'',
       url_root = ''http://localhost:5001/'',
       url = ''http://localhost:5001/mug/api/adjacency/getInteractions'',
       endpoint = ''values'' \<rparr>"

definition example_user :: auth_user where
  "example_user = \<lparr> user_name = ''test'' \<rparr>"

section \<open>Names used to state the properties\<close>

text \<open>
  The query parameters that the range and the point handler hold in \<^verbatim>\<open>params\<close> beside
  \<^verbatim>\<open>user_id\<close>, by the names they are read under (lines 330-334 and 504-507).
\<close>

definition range_required :: "string list" where
  "range_required = [''file_id'', ''chr'', ''start'', ''end'', ''res'']"

definition point_required :: "string list" where
  "point_required = [''file_id'', ''res'', ''pos_x'', ''pos_y'']"

text \<open>The raw input of a request as a dictionary: each supplied name with its string.\<close>

definition raw_supplied :: "request \<Rightarrow> (string \<times> pyval) list" where
  "raw_supplied request = map (\<lambda>(k, v). (k, PStr v)) (args request)"

text \<open>
  The specification's tabular line of one interaction record: the five fields in the order
  chromosome A, start A, chromosome B, start B, value, separated by tabs and ended by a
  newline.
\<close>

definition tsv_line :: "interaction \<Rightarrow> string" where
  "tsv_line v = py_str (chrA v) @ [CHR 0x09] @ py_str (startA v) @ [CHR 0x09]
     @ py_str (chrB v) @ [CHR 0x09] @ py_str (startB v) @ [CHR 0x09]
     @ py_str (val v) @ [CHR 0x0A]"

section \<open>Auxiliary facts\<close>

lemma help_usage_sel [simp]:
  "status_code (help_usage request e c req p) = c"
  "error (help_usage request e c req p) = e"
  "provided_parameters (help_usage request e c req p) = (if p \<noteq> [] then Some p else None)"
  "usage_parameters (help_usage request e c req p) = used_param req"
  by (simp_all add: help_usage_def)

lemma provided_range_not_empty [simp]: "provided_range a b c d e f g h \<noteq> []"
  by (simp add: provided_range_def)

lemma count_true_simps:
  "count_true [] = 0"
  "count_true (b # bs) = (if b then Suc (count_true bs) else count_true bs)"
  by (simp_all add: count_true_def)

lemma py_int_Inr_not_None: "py_int v = Inr i \<Longrightarrow> v \<noteq> PNone"
  by (cases v) auto

lemmas handler_defs =
  GetInteractions_get_def GetInteractions_query_def GetInteractions_result_def
  GetInteractions_except_def GetInteractions_limit_except_def

lemmas example_eval =
  args_get_def example_request_def example_reader_def example_user_def
  parse_int_def strip_def is_space_def digit_of_def count_true_simps

text \<open>
  An authenticated range request whose five primary parameters are present and whose
  numeric ones coerce reaches the code after the first \<^verbatim>\<open>try\<close> (line 376).
\<close>

lemma GetInteractions_get_typed:
  assumes "args_get request ''file_id'' \<noteq> PNone" and "args_get request ''chr'' \<noteq> PNone"
    and "py_int (args_get request ''start'') = Inr s"
    and "py_int (args_get request ''end'') = Inr e"
    and "py_int (args_get request ''res'') = Inr r"
  shows "GetInteractions_get adjacency request (Some u) =
     GetInteractions_query adjacency request u
       [''user_id'', ''file_id'', ''chr_id'', ''start'', ''end'', ''res'',
        ''limit_chr'', ''limit_start'', ''limit_end'']
       (args_get request ''file_id'') (args_get request ''chr'') s e r
       (args_get request ''limit_chr'') (args_get request ''limit_start'')
       (args_get request ''limit_end'') (args_get request ''no_links'')"
  using assms py_int_Inr_not_None[OF assms(3)] py_int_Inr_not_None[OF assms(4)]
    py_int_Inr_not_None[OF assms(5)]
  by (simp add: GetInteractions_get_def Let_def count_true_def)

text \<open>
  With the caller authenticated, \<^verbatim>\<open>params\<close> starts with a \<^verbatim>\<open>user_id\<close> that is not
  \<^verbatim>\<open>None\<close>: a request that lacks one of the other entries is answered by the
  \<^verbatim>\<open>MissingParameters\<close> branch, whatever else it lacks.
\<close>

lemma GetInteractions_get_missing:
  assumes "args_get request ''file_id'' = PNone \<or> args_get request ''chr'' = PNone \<or>
           args_get request ''start'' = PNone \<or> args_get request ''end'' = PNone \<or>
           args_get request ''res'' = PNone"
  shows "GetInteractions_get adjacency request (Some u) =
     (Reply (Usage (help_usage request (Some ''MissingParameters'') 400
         [''user_id'', ''file_id'', ''chr_id'', ''start'', ''end'', ''res'',
          ''limit_chr'', ''limit_start'', ''limit_end'']
         (provided_range (args_get request ''file_id'') (args_get request ''chr'')
            (args_get request ''start'') (args_get request ''end'')
            (args_get request ''res'') (args_get request ''limit_chr'')
            (args_get request ''limit_start'') (args_get request ''limit_end'')))), [])"
  using assms
  by (auto simp add: GetInteractions_get_def Let_def count_true_simps)

lemma GetValue_get_missing:
  assumes "args_get request ''file_id'' = PNone \<or> args_get request ''res'' = PNone \<or>
           args_get request ''pos_x'' = PNone \<or> args_get request ''pos_y'' = PNone"
  shows "GetValue_get adjacency request (Some u) =
     (Reply (Usage (help_usage request (Some ''MissingParameters'') 400
         [''user_id'', ''file_id'', ''res'', ''pos_x'', ''pos_y'']
         [(''file_id'', args_get request ''file_id''),
          (''resolution'', args_get request ''res''),
          (''pos_x'', args_get request ''pos_x''),
          (''pos_y'', args_get request ''pos_y'')])), [])"
  using assms
  by (auto simp add: GetValue_get_def Let_def count_true_simps)

text \<open>The loop of \<^verbatim>\<open>output_tsv\<close> appends the lines of the records, in their order.\<close>

lemma tsv_loop_concat: "tsv_loop outstr vs = outstr @ concat (map tsv_line vs)"
  by (induction vs arbitrary: outstr) (simp_all add: tsv_line_def)

text \<open>The dictionary comprehension of \<^verbatim>\<open>help_usage\<close>, read as a dictionary.\<close>

lemma map_of_used_param:
  "map_of (used_param req) k = (if k \<in> set req then map_of parameters k else None)"
  unfolding used_param_def
  by (induction req) (auto split: option.splits)

text \<open>
  Every usage message of the range handler is built from one of its two lists of
  required names: the one of line 340 or the one of the Forbidden reply (line 445).
\<close>

lemma GetInteractions_usage_required:
  "GetInteractions_get adjacency request user_id = (Reply (Usage m), tr)
   \<Longrightarrow> usage_parameters m =
         used_param [''user_id'', ''file_id'', ''chr_id'', ''start'', ''end'', ''res'',
                     ''limit_chr'', ''limit_start'', ''limit_end'']
     \<or> usage_parameters m =
         used_param [''file_id'', ''chr_id'', ''start'', ''end'', ''res'',
                     ''limit_chr'', ''limit_start'', ''limit_end'']"
  by (auto simp: handler_defs Let_def split: option.splits sum.splits if_splits)

section \<open>Properties of the handlers\<close>

text \<open>
  Throughout, the status of a reply is the \<^verbatim>\<open>status_code\<close> entry of the message the
  handler returns, and the list beside the outcome is the sequence of calls made on the
  adjacency reader.
\<close>

subsection \<open>Handle lifecycle\<close>

text \<open>
  C1. The specification states: every request to the details, range or point operation opens a dataset
  handle at most once and, if it opened one, closes it exactly once before completing, on
  every exit path. Evaluated on the code: an authenticated range request for the
  unsupported resolution 7 opens the handle, reads the details, and returns the
  resolution rejection without ever calling \<^verbatim>\<open>close\<close>.
\<close>

theorem range_resolution_rejection_leaves_handle_open:
  "(\<exists>m. fst (GetInteractions_get example_reader
        (example_request
          [(''file_id'', ''f''), (''chr'', ''1''), (''start'', ''0''),
           (''end'', ''10''), (''res'', ''7'')])
        (Some example_user)) = Reply (Usage m)
      \<and> error m = Some ''Resolution Not Available'')
   \<and> snd (GetInteractions_get example_reader
        (example_request
          [(''file_id'', ''f''), (''chr'', ''1''), (''start'', ''0''),
           (''end'', ''10''), (''res'', ''7'')])
        (Some example_user)) = [Open, Get_details]
   \<and> count_list (snd (GetInteractions_get example_reader
        (example_request
          [(''file_id'', ''f''), (''chr'', ''1''), (''start'', ''0''),
           (''end'', ''10''), (''res'', ''7'')])
        (Some example_user))) Close = 0"
  by (simp add: handler_defs example_eval Let_def)

subsection \<open>Discovery\<close>

text \<open>
  C2. The specification states: for every operation and every authenticated caller, a request with none
  of the operation's query parameters yields a 200 discovery payload and never an error
  payload. Evaluated on the code: \<^verbatim>\<open>params\<close> contains the caller's \<^verbatim>\<open>user_id\<close>, which is
  not \<^verbatim>\<open>None\<close>, so the all-absent test fails and the request with no query argument is
  answered with status 400 and the error MissingParameters by all three handlers.
\<close>

theorem no_parameters_authenticated_is_missing_parameters:
  "(\<exists>m. GetDetails_get example_reader (example_request []) (Some example_user)
          = (Reply (Usage m), [])
        \<and> status_code m = 400 \<and> error m = Some ''MissingParameters'')
   \<and> (\<exists>m. GetInteractions_get example_reader (example_request []) (Some example_user)
          = (Reply (Usage m), [])
        \<and> status_code m = 400 \<and> error m = Some ''MissingParameters'')
   \<and> (\<exists>m. GetValue_get example_reader (example_request []) (Some example_user)
          = (Reply (Usage m), [])
        \<and> status_code m = 400 \<and> error m = Some ''MissingParameters'')"
  by (simp add: GetDetails_get_def GetInteractions_get_def GetValue_get_def
        example_eval Let_def)

subsection \<open>The limiting region\<close>

text \<open>
  C3, as the code has it. The specification states: with the five primary parameters present and
  type-correct, supplying exactly one or two of \<^verbatim>\<open>limit_chr\<close>, \<^verbatim>\<open>limit_start\<close>,
  \<^verbatim>\<open>limit_end\<close> yields a 400 MissingParameters rejection before any range lookup. The code
  guards the limiting region by \<^verbatim>\<open>limit_start\<close> and \<^verbatim>\<open>limit_end\<close> only: for an
  authenticated range request whose primary parameters are present and coerce and whose
  resolution is supported, supplying \<^verbatim>\<open>limit_start\<close> or \<^verbatim>\<open>limit_end\<close> (or both) without
  \<^verbatim>\<open>limit_chr\<close> yields the 400 MissingParameters message with no range lookup (the reader
  is only opened and asked for its details), and supplying \<^verbatim>\<open>limit_chr\<close> alone is
  accepted: the range lookup is made and the envelope carries \<^verbatim>\<open>limit_chr\<close> with no
  limiting start and end.
\<close>

theorem limit_region_needs_limit_chr:
  assumes "args_get request ''file_id'' \<noteq> PNone" and "args_get request ''chr'' \<noteq> PNone"
    and "py_int (args_get request ''start'') = Inr s"
    and "py_int (args_get request ''end'') = Inr e"
    and "py_int (args_get request ''res'') = Inr r"
    and "r \<in> set (resolutions (get_details
            (adjacency (user_name u) (args_get request ''file_id'') (PInt r))))"
  shows "(args_get request ''limit_chr'' = PNone \<and>
          (args_get request ''limit_start'' \<noteq> PNone \<or> args_get request ''limit_end'' \<noteq> PNone)
          \<longrightarrow> (\<exists>m. GetInteractions_get adjacency request (Some u)
                       = (Reply (Usage m), [Open, Get_details])
                  \<and> status_code m = 400 \<and> error m = Some ''MissingParameters''))
       \<and> (args_get request ''limit_chr'' \<noteq> PNone \<and>
          args_get request ''limit_start'' = PNone \<and> args_get request ''limit_end'' = PNone
          \<longrightarrow> (\<exists>env. GetInteractions_get adjacency request (Some u)
                       = (Reply (Interactions env), [Open, Get_details, Get_range, Close])
                  \<and> env_limit_chr env = args_get request ''limit_chr''
                  \<and> env_limit_start env = PNone \<and> env_limit_end env = PNone))"
  unfolding GetInteractions_get_typed[OF assms(1-5)]
  using assms(6)
  by (simp add: GetInteractions_query_def GetInteractions_result_def Let_def)

theorem limit_region_needs_limit_chr_witness:
  "(\<exists>m. GetInteractions_get example_reader
        (example_request
          [(''file_id'', ''f''), (''chr'', ''1''), (''start'', ''0''),
           (''end'', ''10''), (''res'', ''1000''), (''limit_start'', ''5'')])
        (Some example_user) = (Reply (Usage m), [Open, Get_details])
      \<and> status_code m = 400 \<and> error m = Some ''MissingParameters'')
   \<and> (\<exists>env. GetInteractions_get example_reader
        (example_request
          [(''file_id'', ''f''), (''chr'', ''1''), (''start'', ''0''),
           (''end'', ''10''), (''res'', ''1000''), (''limit_chr'', ''2'')])
        (Some example_user) = (Reply (Interactions env), [Open, Get_details, Get_range, Close])
      \<and> env_limit_chr env = PStr ''2''
      \<and> env_limit_start env = PNone \<and> env_limit_end env = PNone)"
proof
  let ?rq = "(example_request
          [(''file_id'', ''f''), (''chr'', ''1''), (''start'', ''0''),
           (''end'', ''10''), (''res'', ''1000''), (''limit_start'', ''5'')])"
  have h: "args_get ?rq ''file_id'' \<noteq> PNone" "args_get ?rq ''chr'' \<noteq> PNone"
    "py_int (args_get ?rq ''start'') = Inr 0" "py_int (args_get ?rq ''end'') = Inr 10"
    "py_int (args_get ?rq ''res'') = Inr 1000"
    "1000 \<in> set (resolutions (get_details
        (example_reader (user_name example_user) (args_get ?rq ''file_id'') (PInt 1000))))"
    by (simp_all add: example_eval)
  have p: "args_get ?rq ''limit_chr'' = PNone \<and>
      (args_get ?rq ''limit_start'' \<noteq> PNone \<or> args_get ?rq ''limit_end'' \<noteq> PNone)"
    by (simp add: example_eval)
  from limit_region_needs_limit_chr
         [where adjacency = example_reader and u = example_user, OF h, THEN conjunct1, rule_format, OF p]
  show "\<exists>m. GetInteractions_get example_reader ?rq (Some example_user)
            = (Reply (Usage m), [Open, Get_details])
      \<and> status_code m = 400 \<and> error m = Some ''MissingParameters''" .
next
  let ?rq = "(example_request
          [(''file_id'', ''f''), (''chr'', ''1''), (''start'', ''0''),
           (''end'', ''10''), (''res'', ''1000''), (''limit_chr'', ''2'')])"
  have h: "args_get ?rq ''file_id'' \<noteq> PNone" "args_get ?rq ''chr'' \<noteq> PNone"
    "py_int (args_get ?rq ''start'') = Inr 0" "py_int (args_get ?rq ''end'') = Inr 10"
    "py_int (args_get ?rq ''res'') = Inr 1000"
    "1000 \<in> set (resolutions (get_details
        (example_reader (user_name example_user) (args_get ?rq ''file_id'') (PInt 1000))))"
    by (simp_all add: example_eval)
  have p: "args_get ?rq ''limit_chr'' \<noteq> PNone \<and>
      args_get ?rq ''limit_start'' = PNone \<and> args_get ?rq ''limit_end'' = PNone"
    by (simp add: example_eval)
  have q: "args_get ?rq ''limit_chr'' = PStr ''2''"
    by (simp add: example_eval)
  from limit_region_needs_limit_chr
         [where adjacency = example_reader and u = example_user, OF h, THEN conjunct2, rule_format, OF p]
  show "\<exists>env. GetInteractions_get example_reader ?rq (Some example_user)
            = (Reply (Interactions env), [Open, Get_details, Get_range, Close])
      \<and> env_limit_chr env = PStr ''2''
      \<and> env_limit_start env = PNone \<and> env_limit_end env = PNone"
    unfolding q .
qed

text \<open>
  The statement fails where \<^verbatim>\<open>limit_chr\<close> is the one limiting parameter supplied: the reply
  is the range envelope, not a rejection, and the range lookup has been made.
\<close>

theorem limit_chr_alone_is_accepted:
  "(\<exists>env. fst (GetInteractions_get example_reader
        (example_request
          [(''file_id'', ''f''), (''chr'', ''1''), (''start'', ''0''),
           (''end'', ''10''), (''res'', ''1000''), (''limit_chr'', ''2'')])
        (Some example_user)) = Reply (Interactions env))
   \<and> Get_range \<in> set (snd (GetInteractions_get example_reader
        (example_request
          [(''file_id'', ''f''), (''chr'', ''1''), (''start'', ''0''),
           (''end'', ''10''), (''res'', ''1000''), (''limit_chr'', ''2'')])
        (Some example_user)))"
  by (simp add: handler_defs example_eval Let_def)

subsection \<open>The resolution check\<close>

text \<open>
  C4, as the code has it. The specification states: an unsupported resolution yields a 400
  ResolutionNotAvailable rejection, the check runs only after all primary parameters
  type-check, and no dataset handle is opened before the resolution validation succeeds.
  The code reads the supported resolutions from the handle it has opened at the requested
  resolution: for an authenticated range request whose primary parameters are present and
  coerce, a resolution outside the dataset's supported list yields the 400 message with
  the error text \<^verbatim>\<open>Resolution Not Available\<close>, after the handle has been opened once and
  asked for its details; and whenever the range handler answers with that error, the
  caller was authenticated, the three numeric primary parameters had coerced, and the
  reader calls made are exactly the open and the details call.
\<close>

theorem unsupported_resolution_rejected_after_open:
  "(args_get request ''file_id'' \<noteq> PNone \<and> args_get request ''chr'' \<noteq> PNone \<and>
    py_int (args_get request ''start'') = Inr s \<and>
    py_int (args_get request ''end'') = Inr e \<and>
    py_int (args_get request ''res'') = Inr r \<and>
    r \<notin> set (resolutions (get_details
            (adjacency (user_name u) (args_get request ''file_id'') (PInt r))))
    \<longrightarrow> (\<exists>m. GetInteractions_get adjacency request (Some u)
                = (Reply (Usage m), [Open, Get_details])
           \<and> status_code m = 400 \<and> error m = Some ''Resolution Not Available''))
   \<and> (GetInteractions_get adjacency request user_id = (Reply (Usage m'), tr) \<and>
      error m' = Some ''Resolution Not Available''
    \<longrightarrow> (\<exists>u' s' e' r'. user_id = Some u' \<and>
            py_int (args_get request ''start'') = Inr s' \<and>
            py_int (args_get request ''end'') = Inr e' \<and>
            py_int (args_get request ''res'') = Inr r' \<and>
            r' \<notin> set (resolutions (get_details
              (adjacency (user_name u') (args_get request ''file_id'') (PInt r')))))
        \<and> tr = [Open, Get_details])"
proof (intro conjI impI)
  assume a: "args_get request ''file_id'' \<noteq> PNone \<and> args_get request ''chr'' \<noteq> PNone \<and>
    py_int (args_get request ''start'') = Inr s \<and>
    py_int (args_get request ''end'') = Inr e \<and>
    py_int (args_get request ''res'') = Inr r \<and>
    r \<notin> set (resolutions (get_details
            (adjacency (user_name u) (args_get request ''file_id'') (PInt r))))"
  then have t: "GetInteractions_get adjacency request (Some u) =
     GetInteractions_query adjacency request u
       [''user_id'', ''file_id'', ''chr_id'', ''start'', ''end'', ''res'',
        ''limit_chr'', ''limit_start'', ''limit_end'']
       (args_get request ''file_id'') (args_get request ''chr'') s e r
       (args_get request ''limit_chr'') (args_get request ''limit_start'')
       (args_get request ''limit_end'') (args_get request ''no_links'')"
    by (intro GetInteractions_get_typed) simp_all
  from a show "\<exists>m. GetInteractions_get adjacency request (Some u)
                = (Reply (Usage m), [Open, Get_details])
           \<and> status_code m = 400 \<and> error m = Some ''Resolution Not Available''"
    unfolding t by (simp add: GetInteractions_query_def Let_def)
next
  assume b: "GetInteractions_get adjacency request user_id = (Reply (Usage m'), tr) \<and>
      error m' = Some ''Resolution Not Available''"
  then show "\<exists>u' s' e' r'. user_id = Some u' \<and>
            py_int (args_get request ''start'') = Inr s' \<and>
            py_int (args_get request ''end'') = Inr e' \<and>
            py_int (args_get request ''res'') = Inr r' \<and>
            r' \<notin> set (resolutions (get_details
              (adjacency (user_name u') (args_get request ''file_id'') (PInt r'))))"
    by (auto simp: handler_defs Let_def split: option.splits sum.splits if_splits)
  from b show "tr = [Open, Get_details]"
    by (auto simp: handler_defs Let_def split: option.splits sum.splits if_splits)
qed

theorem unsupported_resolution_rejected_after_open_witness:
  "(\<exists>m. GetInteractions_get example_reader
        (example_request
          [(''file_id'', ''f''), (''chr'', ''1''), (''start'', ''0''),
           (''end'', ''10''), (''res'', ''7'')])
        (Some example_user) = (Reply (Usage m), [Open, Get_details])
      \<and> status_code m = 400 \<and> error m = Some ''Resolution Not Available'')
   \<and> py_int (args_get
        (example_request
          [(''file_id'', ''f''), (''chr'', ''1''), (''start'', ''0''),
           (''end'', ''10''), (''res'', ''7'')]) ''res'') = Inr 7"
proof -
  let ?rq = "(example_request
          [(''file_id'', ''f''), (''chr'', ''1''), (''start'', ''0''),
           (''end'', ''10''), (''res'', ''7'')])"
  have h: "args_get ?rq ''file_id'' \<noteq> PNone \<and> args_get ?rq ''chr'' \<noteq> PNone \<and>
    py_int (args_get ?rq ''start'') = Inr 0 \<and> py_int (args_get ?rq ''end'') = Inr 10 \<and>
    py_int (args_get ?rq ''res'') = Inr 7 \<and>
    7 \<notin> set (resolutions (get_details
        (example_reader (user_name example_user) (args_get ?rq ''file_id'') (PInt 7))))"
    by (simp add: example_eval)
  from unsupported_resolution_rejected_after_open
         [of ?rq 0 10 7 example_reader example_user, THEN conjunct1, rule_format, OF h]
  have "\<exists>m. GetInteractions_get example_reader ?rq (Some example_user)
            = (Reply (Usage m), [Open, Get_details])
      \<and> status_code m = 400 \<and> error m = Some ''Resolution Not Available''" .
  with h show ?thesis by blast
qed

text \<open>
  The statement fails in its last part: on the request for the unsupported resolution 7 the
  resolution validation does not succeed, and the handle has been opened all the same.
\<close>

theorem resolution_rejection_has_opened_handle:
  "(\<exists>m. fst (GetInteractions_get example_reader
        (example_request
          [(''file_id'', ''f''), (''chr'', ''1''), (''start'', ''0''),
           (''end'', ''10''), (''res'', ''7'')])
        (Some example_user)) = Reply (Usage m)
      \<and> status_code m = 400 \<and> error m = Some ''Resolution Not Available'')
   \<and> Open \<in> set (snd (GetInteractions_get example_reader
        (example_request
          [(''file_id'', ''f''), (''chr'', ''1''), (''start'', ''0''),
           (''end'', ''10''), (''res'', ''7'')])
        (Some example_user)))"
  by (simp add: handler_defs example_eval Let_def)

subsection \<open>Authorization\<close>

text \<open>
  C5. The specification states: an unauthenticated request to the details, range or point operation is
  answered with the 403 Forbidden message, whatever else it supplies. Evaluated on the
  code: the details handler, called with \<^verbatim>\<open>user_id\<close> \<^verbatim>\<open>None\<close>, reads \<^verbatim>\<open>params_required\<close>
  before any assignment to it and raises UnboundLocalError, for every request and reader.
\<close>

theorem details_unauthenticated_raises:
  "GetDetails_get adjacency request None = (Raised UnboundLocalError, [])"
  by (simp add: GetDetails_get_def)

subsection \<open>The echo of the supplied parameters\<close>

text \<open>
  C6, as the code has it. The specification states: supplying some but not all required parameters
  yields a 400 MissingParameters rejection whose \<^verbatim>\<open>provided_parameters\<close> exactly equals the
  raw supplied input. The code echoes a fixed list of names: for the range and the point
  operation and an authenticated caller, supplying some but not all of the operation's
  required parameters yields the 400 MissingParameters message, with no reader call, whose
  \<^verbatim>\<open>provided_parameters\<close> holds, for the range operation, an entry for each of
  \<^verbatim>\<open>file_id\<close>, \<^verbatim>\<open>chr\<close>, \<^verbatim>\<open>start\<close>, \<^verbatim>\<open>end\<close>, \<^verbatim>\<open>res\<close>, \<^verbatim>\<open>limit_chr\<close>, \<^verbatim>\<open>limit_start\<close>,
  \<^verbatim>\<open>limit_end\<close>, and for the point operation entries for \<^verbatim>\<open>file_id\<close>, \<^verbatim>\<open>pos_x\<close>,
  \<^verbatim>\<open>pos_y\<close>, each the raw string when the parameter was supplied and \<^verbatim>\<open>None\<close> when it
  was not.
\<close>

theorem missing_parameters_echo:
  "((\<exists>k \<in> set range_required. args_get request k \<noteq> PNone) \<and>
    (\<exists>k \<in> set range_required. args_get request k = PNone)
     \<longrightarrow> (\<exists>m. GetInteractions_get adjacency request (Some u) = (Reply (Usage m), [])
            \<and> status_code m = 400 \<and> error m = Some ''MissingParameters''
            \<and> provided_parameters m =
                Some (map (\<lambda>k. (k, args_get request k))
                  [''file_id'', ''chr'', ''start'', ''end'', ''res'',
                   ''limit_chr'', ''limit_start'', ''limit_end''])))
  \<and> ((\<exists>k \<in> set point_required. args_get request k \<noteq> PNone) \<and>
    (\<exists>k \<in> set point_required. args_get request k = PNone)
     \<longrightarrow> (\<exists>m p. GetValue_get adjacency request (Some u) = (Reply (Usage m), [])
            \<and> status_code m = 400 \<and> error m = Some ''MissingParameters''
            \<and> provided_parameters m = Some p
            \<and> map_of p ''file_id'' = Some (args_get request ''file_id'')
            \<and> map_of p ''pos_x'' = Some (args_get request ''pos_x'')
            \<and> map_of p ''pos_y'' = Some (args_get request ''pos_y'')))"
proof (intro conjI impI)
  assume "(\<exists>k \<in> set range_required. args_get request k \<noteq> PNone) \<and>
    (\<exists>k \<in> set range_required. args_get request k = PNone)"
  then have "args_get request ''file_id'' = PNone \<or> args_get request ''chr'' = PNone \<or>
           args_get request ''start'' = PNone \<or> args_get request ''end'' = PNone \<or>
           args_get request ''res'' = PNone"
    by (simp add: range_required_def)
  from GetInteractions_get_missing[OF this]
  show "\<exists>m. GetInteractions_get adjacency request (Some u) = (Reply (Usage m), [])
            \<and> status_code m = 400 \<and> error m = Some ''MissingParameters''
            \<and> provided_parameters m =
                Some (map (\<lambda>k. (k, args_get request k))
                  [''file_id'', ''chr'', ''start'', ''end'', ''res'',
                   ''limit_chr'', ''limit_start'', ''limit_end''])"
    by (simp add: provided_range_def)
next
  assume "(\<exists>k \<in> set point_required. args_get request k \<noteq> PNone) \<and>
    (\<exists>k \<in> set point_required. args_get request k = PNone)"
  then have "args_get request ''file_id'' = PNone \<or> args_get request ''res'' = PNone \<or>
           args_get request ''pos_x'' = PNone \<or> args_get request ''pos_y'' = PNone"
    by (simp add: point_required_def)
  from GetValue_get_missing[OF this]
  show "\<exists>m p. GetValue_get adjacency request (Some u) = (Reply (Usage m), [])
            \<and> status_code m = 400 \<and> error m = Some ''MissingParameters''
            \<and> provided_parameters m = Some p
            \<and> map_of p ''file_id'' = Some (args_get request ''file_id'')
            \<and> map_of p ''pos_x'' = Some (args_get request ''pos_x'')
            \<and> map_of p ''pos_y'' = Some (args_get request ''pos_y'')"
    by simp
qed

theorem missing_parameters_echo_witness:
  "(\<exists>m. GetInteractions_get example_reader (example_request [(''file_id'', ''f'')])
          (Some example_user) = (Reply (Usage m), [])
      \<and> status_code m = 400 \<and> error m = Some ''MissingParameters''
      \<and> provided_parameters m =
          Some [(''file_id'', PStr ''f''), (''chr'', PNone), (''start'', PNone),
                (''end'', PNone), (''res'', PNone), (''limit_chr'', PNone),
                (''limit_start'', PNone), (''limit_end'', PNone)])
   \<and> (\<exists>m p. GetValue_get example_reader (example_request [(''pos_x'', ''10'')])
          (Some example_user) = (Reply (Usage m), [])
      \<and> status_code m = 400 \<and> error m = Some ''MissingParameters''
      \<and> provided_parameters m = Some p
      \<and> map_of p ''file_id'' = Some PNone
      \<and> map_of p ''pos_x'' = Some (PStr ''10'')
      \<and> map_of p ''pos_y'' = Some PNone)"
proof
  let ?rq = "example_request [(''file_id'', ''f'')]"
  have h: "(\<exists>k \<in> set range_required. args_get ?rq k \<noteq> PNone) \<and>
           (\<exists>k \<in> set range_required. args_get ?rq k = PNone)"
    by (simp add: range_required_def example_eval)
  have v: "map (\<lambda>k. (k, args_get ?rq k))
             [''file_id'', ''chr'', ''start'', ''end'', ''res'',
              ''limit_chr'', ''limit_start'', ''limit_end'']
         = [(''file_id'', PStr ''f''), (''chr'', PNone), (''start'', PNone),
            (''end'', PNone), (''res'', PNone), (''limit_chr'', PNone),
            (''limit_start'', PNone), (''limit_end'', PNone)]"
    by (simp add: example_eval)
  from missing_parameters_echo
         [where adjacency = example_reader and u = example_user and request = ?rq,
          THEN conjunct1, rule_format, OF h]
  show "\<exists>m. GetInteractions_get example_reader ?rq (Some example_user) = (Reply (Usage m), [])
      \<and> status_code m = 400 \<and> error m = Some ''MissingParameters''
      \<and> provided_parameters m =
          Some [(''file_id'', PStr ''f''), (''chr'', PNone), (''start'', PNone),
                (''end'', PNone), (''res'', PNone), (''limit_chr'', PNone),
                (''limit_start'', PNone), (''limit_end'', PNone)]"
    unfolding v .
next
  let ?rq = "example_request [(''pos_x'', ''10'')]"
  have h: "(\<exists>k \<in> set point_required. args_get ?rq k \<noteq> PNone) \<and>
           (\<exists>k \<in> set point_required. args_get ?rq k = PNone)"
    by (simp add: point_required_def example_eval)
  have v: "args_get ?rq ''file_id'' = PNone" "args_get ?rq ''pos_x'' = PStr ''10''"
    "args_get ?rq ''pos_y'' = PNone"
    by (simp_all add: example_eval)
  from missing_parameters_echo
         [where adjacency = example_reader and u = example_user and request = ?rq,
          THEN conjunct2, rule_format, OF h]
  show "\<exists>m p. GetValue_get example_reader ?rq (Some example_user) = (Reply (Usage m), [])
      \<and> status_code m = 400 \<and> error m = Some ''MissingParameters''
      \<and> provided_parameters m = Some p
      \<and> map_of p ''file_id'' = Some PNone
      \<and> map_of p ''pos_x'' = Some (PStr ''10'')
      \<and> map_of p ''pos_y'' = Some PNone"
    unfolding v .
qed

text \<open>
  The statement fails on the range request that supplies \<^verbatim>\<open>file_id\<close> alone: the echoed
  dictionary has an entry \<^verbatim>\<open>chr\<close> (holding \<^verbatim>\<open>None\<close>) that the raw input does not have, so
  the two are not equal.
\<close>

theorem missing_parameters_echo_differs_from_raw:
  "\<exists>m p. fst (GetInteractions_get example_reader
            (example_request [(''file_id'', ''f'')]) (Some example_user)) = Reply (Usage m)
     \<and> error m = Some ''MissingParameters''
     \<and> provided_parameters m = Some p
     \<and> map_of p ''chr'' = Some PNone
     \<and> map_of (raw_supplied (example_request [(''file_id'', ''f'')])) ''chr'' = None
     \<and> map_of p \<noteq> map_of (raw_supplied (example_request [(''file_id'', ''f'')]))"
proof -
  let ?rq = "example_request [(''file_id'', ''f'')]"
  let ?p = "provided_range (PStr ''f'') PNone PNone PNone PNone PNone PNone PNone"
  let ?m = "help_usage ?rq (Some ''MissingParameters'') 400
         [''user_id'', ''file_id'', ''chr_id'', ''start'', ''end'', ''res'',
          ''limit_chr'', ''limit_start'', ''limit_end''] ?p"
  have r: "fst (GetInteractions_get example_reader ?rq (Some example_user)) = Reply (Usage ?m)"
    by (simp add: GetInteractions_get_def example_eval Let_def)
  have a: "map_of ?p ''chr'' = Some PNone" by (simp add: provided_range_def)
  have b: "map_of (raw_supplied ?rq) ''chr'' = None"
    by (simp add: raw_supplied_def example_request_def)
  have c: "map_of ?p \<noteq> map_of (raw_supplied ?rq)"
  proof
    assume "map_of ?p = map_of (raw_supplied ?rq)"
    then have "map_of ?p ''chr'' = map_of (raw_supplied ?rq) ''chr''" by (rule arg_cong)
    with a b show False by simp
  qed
  have d: "provided_parameters ?m = Some ?p" by simp
  have e: "error ?m = Some ''MissingParameters''" by simp
  from r e d a b c show ?thesis by blast
qed

subsection \<open>Coercion failures\<close>

text \<open>
  C7. The specification states: a numeric parameter that fails integer coercion yields a 400
  IncorrectParameterType rejection that echoes the supplied values verbatim, never the
  partially coerced ones. Evaluated on the code: on the range request with
  \<^verbatim>\<open>start=007\<close> and \<^verbatim>\<open>end=x\<close> the first assignment of the \<^verbatim>\<open>try\<close> has replaced \<^verbatim>\<open>start\<close>
  by the integer 7 before \<^verbatim>\<open>int(end)\<close> raises, and the message echoes that integer in
  place of the supplied string \<^verbatim>\<open>007\<close>.
\<close>

theorem coercion_failure_echoes_coerced_start:
  "\<exists>m p. fst (GetInteractions_get example_reader
        (example_request
          [(''file_id'', ''f''), (''chr'', ''1''), (''start'', ''007''),
           (''end'', ''x''), (''res'', ''1000'')])
        (Some example_user)) = Reply (Usage m)
     \<and> status_code m = 400 \<and> error m = Some ''IncorrectParameterType''
     \<and> provided_parameters m = Some p
     \<and> map_of p ''start'' = Some (PInt 7)
     \<and> map_of p ''end'' = Some (PStr ''x'')
     \<and> args_get
        (example_request
          [(''file_id'', ''f''), (''chr'', ''1''), (''start'', ''007''),
           (''end'', ''x''), (''res'', ''1000'')]) ''start'' = PStr ''007''"
  by (simp add: GetInteractions_get_def GetInteractions_except_def example_eval Let_def)

subsection \<open>The range envelope\<close>

text \<open>
  C8. In every successful reply of the range handler, \<^verbatim>\<open>interaction_count\<close> is the length
  of the \<^verbatim>\<open>values\<close> list of the same envelope.
\<close>

theorem interaction_count_is_length:
  "GetInteractions_get adjacency request user_id = (Reply (Interactions env), tr)
     \<Longrightarrow> env_interaction_count env = length (env_values env)"
  by (auto simp: handler_defs Let_def split: option.splits sum.splits if_splits)

theorem interaction_count_is_length_witness:
  "\<exists>env tr. GetInteractions_get example_reader
        (example_request
          [(''file_id'', ''f''), (''chr'', ''1''), (''start'', ''0''),
           (''end'', ''10''), (''res'', ''1000'')])
        (Some example_user) = (Reply (Interactions env), tr)
     \<and> env_values env = example_records
     \<and> env_interaction_count env = length (env_values env)"
proof -
  let ?rq = "(example_request
          [(''file_id'', ''f''), (''chr'', ''1''), (''start'', ''0''),
           (''end'', ''10''), (''res'', ''1000'')])"
  obtain env tr where
    r: "GetInteractions_get example_reader ?rq (Some example_user) = (Reply (Interactions env), tr)"
    and v: "env_values env = example_records"
    by (simp add: handler_defs example_eval Let_def)
  from interaction_count_is_length[OF r] r v show ?thesis by blast
qed

subsection \<open>Tabular rendering\<close>

text \<open>
  C9. On the range endpoint, the tabular rendering of a range envelope has as its body
  exactly the lines of the envelope's records, in their order, each the five fields
  chromosome A, start A, chromosome B, start B, value separated by tabs and ended by a
  newline, and nothing else (no links, echoed parameters, count or log); the records
  (1,100,2,200,5) and (1,150,3,300,7) render as the two lines
  \<^verbatim>\<open>1 100 2 200 5\<close> and \<^verbatim>\<open>1 150 3 300 7\<close> with tabs between the fields.
\<close>

theorem output_tsv_lines:
  "(endpoint request = ''values'' \<longrightarrow>
      output_tsv request (Interactions env) code hdrs =
        Inr (Some \<lparr> body = concat (map tsv_line (env_values env)), status = code,
                    headers = (case hdrs of None \<Rightarrow> [] | Some h \<Rightarrow> h) \<rparr>))
   \<and> tsv_loop [] example_records =
        [CHR ''1'', CHR 0x09, CHR ''1'', CHR ''0'', CHR ''0'', CHR 0x09, CHR ''2'', CHR 0x09,
         CHR ''2'', CHR ''0'', CHR ''0'', CHR 0x09, CHR ''5'', CHR 0x0A,
         CHR ''1'', CHR 0x09, CHR ''1'', CHR ''5'', CHR ''0'', CHR 0x09, CHR ''3'', CHR 0x09,
         CHR ''3'', CHR ''0'', CHR ''0'', CHR 0x09, CHR ''7'', CHR 0x0A]"
proof
  show "endpoint request = ''values'' \<longrightarrow>
      output_tsv request (Interactions env) code hdrs =
        Inr (Some \<lparr> body = concat (map tsv_line (env_values env)), status = code,
                    headers = (case hdrs of None \<Rightarrow> [] | Some h \<Rightarrow> h) \<rparr>)"
    by (simp add: output_tsv_def tsv_loop_concat)
  show "tsv_loop [] example_records =
        [CHR ''1'', CHR 0x09, CHR ''1'', CHR ''0'', CHR ''0'', CHR 0x09, CHR ''2'', CHR 0x09,
         CHR ''2'', CHR ''0'', CHR ''0'', CHR 0x09, CHR ''5'', CHR 0x0A,
         CHR ''1'', CHR 0x09, CHR ''1'', CHR ''5'', CHR ''0'', CHR 0x09, CHR ''3'', CHR 0x09,
         CHR ''3'', CHR ''0'', CHR ''0'', CHR 0x09, CHR ''7'', CHR 0x0A]"
    by (simp add: example_records_def str_int_def str_nat.simps digit_char_def)
qed

theorem output_tsv_lines_witness:
  "\<exists>r. output_tsv (example_request [])
          (Interactions
            \<lparr> env_self = [], env_parent = [], env_resolution = PInt 1000,
              env_chr = PStr ''chr1'', env_start = PInt 0, env_end = PInt 10,
              env_limit_chr = PNone, env_limit_start = PNone, env_limit_end = PNone,
              env_interaction_count = 2, env_values = example_records, env_log = [] \<rparr>)
          200 None = Inr (Some r)
     \<and> body r =
        [CHR ''1'', CHR 0x09, CHR ''1'', CHR ''0'', CHR ''0'', CHR 0x09, CHR ''2'', CHR 0x09,
         CHR ''2'', CHR ''0'', CHR ''0'', CHR 0x09, CHR ''5'', CHR 0x0A,
         CHR ''1'', CHR 0x09, CHR ''1'', CHR ''5'', CHR ''0'', CHR 0x09, CHR ''3'', CHR 0x09,
         CHR ''3'', CHR ''0'', CHR ''0'', CHR 0x09, CHR ''7'', CHR 0x0A]
     \<and> status r = 200 \<and> headers r = []"
proof -
  let ?env = "\<lparr> env_self = [], env_parent = [], env_resolution = PInt 1000,
              env_chr = PStr ''chr1'', env_start = PInt 0, env_end = PInt 10,
              env_limit_chr = PNone, env_limit_start = PNone, env_limit_end = PNone,
              env_interaction_count = 2, env_values = example_records, env_log = [] \<rparr>"
  have h: "endpoint (example_request []) = ''values''"
    by (simp add: example_request_def)
  have l: "concat (map tsv_line (env_values ?env)) =
        [CHR ''1'', CHR 0x09, CHR ''1'', CHR ''0'', CHR ''0'', CHR 0x09, CHR ''2'', CHR 0x09,
         CHR ''2'', CHR ''0'', CHR ''0'', CHR 0x09, CHR ''5'', CHR 0x0A,
         CHR ''1'', CHR 0x09, CHR ''1'', CHR ''5'', CHR ''0'', CHR 0x09, CHR ''3'', CHR 0x09,
         CHR ''3'', CHR ''0'', CHR ''0'', CHR 0x09, CHR ''7'', CHR 0x0A]"
    by (simp add: example_records_def tsv_line_def str_int_def str_nat.simps digit_char_def)
  from output_tsv_lines
         [where request = "example_request []" and env = ?env and code = 200 and hdrs = None,
          THEN conjunct1, rule_format, OF h]
  show ?thesis unfolding l by simp
qed

subsection \<open>The usage block\<close>

text \<open>
  C10. The \<^verbatim>\<open>parameters\<close> section of a usage message holds, for a name \<open>k\<close>, the entry of
  the static table when \<open>k\<close> is in the list of required names passed by the operation and
  is a key of the table, and no entry otherwise: names outside the table are left out
  without notice. The range handler passes \<^verbatim>\<open>user_id\<close> and \<^verbatim>\<open>chr_id\<close>, which the table
  does not have, and never \<^verbatim>\<open>chrom\<close>: none of its usage messages describes the chromosome
  parameter, under any of its names.
\<close>

theorem usage_parameters_from_table:
  "map_of (usage_parameters (help_usage request e c req p)) k
      = (if k \<in> set req then map_of parameters k else None)
   \<and> (GetInteractions_get adjacency request' user_id = (Reply (Usage m), tr)
        \<longrightarrow> map_of (usage_parameters m) ''chrom'' = None
          \<and> map_of (usage_parameters m) ''chr'' = None
          \<and> map_of (usage_parameters m) ''chr_id'' = None
          \<and> map_of (usage_parameters m) ''user_id'' = None)"
proof
  show "map_of (usage_parameters (help_usage request e c req p)) k
      = (if k \<in> set req then map_of parameters k else None)"
    by (simp add: map_of_used_param)
  show "GetInteractions_get adjacency request' user_id = (Reply (Usage m), tr)
        \<longrightarrow> map_of (usage_parameters m) ''chrom'' = None
          \<and> map_of (usage_parameters m) ''chr'' = None
          \<and> map_of (usage_parameters m) ''chr_id'' = None
          \<and> map_of (usage_parameters m) ''user_id'' = None"
  proof
    assume "GetInteractions_get adjacency request' user_id = (Reply (Usage m), tr)"
    from GetInteractions_usage_required[OF this]
    show "map_of (usage_parameters m) ''chrom'' = None
          \<and> map_of (usage_parameters m) ''chr'' = None
          \<and> map_of (usage_parameters m) ''chr_id'' = None
          \<and> map_of (usage_parameters m) ''user_id'' = None"
      by (auto simp: map_of_used_param parameters_def)
  qed
qed

theorem usage_parameters_from_table_witness:
  "\<exists>m. GetInteractions_get example_reader (example_request []) None = (Reply (Usage m), [])
     \<and> status_code m = 403 \<and> error m = Some ''Forbidden''
     \<and> map_of (usage_parameters m) ''chrom'' = None
     \<and> map_of (usage_parameters m) ''chr'' = None
     \<and> map_of (usage_parameters m) ''chr_id'' = None
     \<and> map_of (usage_parameters m) ''user_id'' = None
     \<and> map_of (usage_parameters m) ''start'' = Some [''Start'', ''int'', ''REQUIRED'']"
proof -
  let ?m = "help_usage (example_request []) (Some ''Forbidden'') 403
              [''file_id'', ''chr_id'', ''start'', ''end'', ''res'',
               ''limit_chr'', ''limit_start'', ''limit_end''] []"
  have r: "GetInteractions_get example_reader (example_request []) None = (Reply (Usage ?m), [])"
    by (simp add: GetInteractions_get_def)
  have s: "map_of (usage_parameters ?m) ''start'' = Some [''Start'', ''int'', ''REQUIRED'']"
    by (simp add: map_of_used_param parameters_def)
  from usage_parameters_from_table
         [where adjacency = example_reader and request' = "example_request []"
            and user_id = None and m = ?m and tr = "[]",
          THEN conjunct2, rule_format, OF r] r s
  show ?thesis by simp
qed

end
